theory Spec2Isabelle
  imports Main
begin

section \<open>The peer-to-peer chat node of \<^verbatim>\<open>node.py\<close>\<close>

text \<open>
  The class \<^verbatim>\<open>PureP2PNetwork\<close> is embedded with explicit state passing. The
  node object is a record; everything outside of it that the methods touch (the
  snapshot file, the outbound connections, the terminal, the accepted sockets) is a
  second record, the world. What a method cannot decide by itself (what the user
  types, whether a connection succeeds, the clock, whether the file can be written)
  comes in as an environment, one per method call.

  Boundaries of the model: strings are lists of 8-bit characters read as code points
  0..255; JSON numbers with a fraction or an exponent (Python floats) are not
  represented; the threads of \<^verbatim>\<open>tcp_server\<close> are not represented, every
  method runs alone on the state.
\<close>

subsection \<open>Values\<close>

text \<open>What \<^verbatim>\<open>json.loads\<close> returns. An object carries the items of the Python
  dict; \<open>map_of\<close> is the lookup.\<close>

datatype json =
    JNull
  | JBool bool
  | JInt int
  | JStr string
  | JArr "json list"
  | JObj "(string \<times> json) list"

text \<open>Keys of a Python dict: the hashable JSON values, with \<^verbatim>\<open>True == 1\<close> and
  \<^verbatim>\<open>False == 0\<close>. Lists and dicts are unhashable: using one as a key raises
  \<^verbatim>\<open>TypeError\<close>.\<close>

datatype pykey = KNone | KInt int | KStr string

fun to_key :: "json \<Rightarrow> pykey option" where
  "to_key JNull = Some KNone"
| "to_key (JBool b) = Some (KInt (if b then 1 else 0))"
| "to_key (JInt n) = Some (KInt n)"
| "to_key (JStr s) = Some (KStr s)"
| "to_key (JArr xs) = None"
| "to_key (JObj kvs) = None"

datatype error = AttributeError | KeyError string | TypeError | EOFError

text \<open>The value a Python call evaluates to, for the two operations the command loop
  calls: a function body without \<^verbatim>\<open>return\<close> gives \<^verbatim>\<open>None\<close>.\<close>

datatype pyval = PyNone | PyBool bool

subsection \<open>\<^verbatim>\<open>str.strip()\<close> and \<^verbatim>\<open>str.lower()\<close> on code points below 256\<close>

definition isspace :: "char \<Rightarrow> bool" where
  "isspace c = (let n = (of_char c :: nat) in
     (9 \<le> n \<and> n \<le> 13) \<or> (28 \<le> n \<and> n \<le> 32) \<or> n = 133 \<or> n = 160)"

definition strip :: "string \<Rightarrow> string" where
  "strip s = rev (dropWhile isspace (rev (dropWhile isspace s)))"

definition lower_char :: "char \<Rightarrow> char" where
  "lower_char c = (let n = (of_char c :: nat) in
     if (65 \<le> n \<and> n \<le> 90) \<or> (192 \<le> n \<and> n \<le> 222 \<and> n \<noteq> 215)
     then char_of (n + 32) else c)"

definition lower :: "string \<Rightarrow> string" where
  "lower s = map lower_char s"

subsection \<open>The node and the world\<close>

text \<open>A friend record is the dict \<^verbatim>\<open>{'ip': .., 'port': .., 'connected': ..}\<close>; a
  conversation entry is the dict with the keys \<^verbatim>\<open>time\<close>, \<^verbatim>\<open>from\<close>,
  \<^verbatim>\<open>content\<close>, \<^verbatim>\<open>direction\<close>.\<close>

record friend_info =
  ip :: json
  port :: json
  connected :: bool

record chat_entry =
  time :: string
  msg_from :: json
  content :: json
  direction :: string

text \<open>The fields of \<^verbatim>\<open>self\<close> that the methods below read or write
  (\<^verbatim>\<open>self.port\<close> is \<open>self_port\<close>; \<^verbatim>\<open>self.peers\<close> is never used).\<close>

record node =
  username :: "string option"
  node_id :: string
  self_port :: int
  friends :: "pykey \<rightharpoonup> friend_info"
  friend_requests :: "pykey \<rightharpoonup> string \<times> int"
  conversations :: "pykey \<rightharpoonup> chat_entry list"
  running :: bool
  current_chat :: "string option"

text \<open>One constructor per \<^verbatim>\<open>print\<close> of the source, carrying the values the
  f-string interpolates.\<close>

datatype notice =
    Loaded nat nat
  | CouldNotLoad
  | FriendRequestFrom json
  | AcceptPrompt
  | NowFriend json
  | Rejected json
  | Prompt
  | Accepted json
  | RejectedBy json
  | IncomingChat string json json
  | RequestSent string
  | CouldNotConnect string
  | NotFriend string
  | ChatHeader string
  | Rule
  | HistoryYou string json
  | HistoryPeer string string json
  | NoMessagesYet
  | LeftChat
  | You string
  | MessageFailed
  | ErrorNotice error

text \<open>The dict that \<^verbatim>\<open>save_data\<close> pickles and \<^verbatim>\<open>load_data\<close> reads with
  \<^verbatim>\<open>data.get(key, {})\<close>: a field is \<open>None\<close> when the key is absent.\<close>

record pickled =
  p_friends :: "(pykey \<rightharpoonup> friend_info) option"
  p_conversations :: "(pykey \<rightharpoonup> chat_entry list) option"
  p_friend_requests :: "(pykey \<rightharpoonup> string \<times> int) option"

text \<open>The world: the content of \<^verbatim>\<open>p2p_data.pkl\<close> (\<open>None\<close>: no such file), every
  call of \<^verbatim>\<open>send_direct_message\<close> with its result, the printed lines, and the
  accepted sockets that were closed.\<close>

record 'b world =
  disk :: "'b option"
  sends :: "(json \<times> json \<times> json \<times> bool) list"
  printed :: "notice list"
  closed :: "nat list"

datatype 'b write_result = WriteOk | OpenFails | WriteFails 'b

text \<open>The environment of one method call: the line \<^verbatim>\<open>input()\<close> returns at the
  accept prompt (\<open>None\<close>: it raises \<^verbatim>\<open>EOFError\<close>), whether the network lets the
  connect and send through, the clock as \<^verbatim>\<open>%H:%M:%S\<close>, what happens to the file
  write, and the address \<^verbatim>\<open>get_local_ip\<close> detects.\<close>

record 'b env =
  answer :: "string option"
  net_ok :: bool
  now :: string
  file_write :: "'b write_result"
  detected_ip :: "string option"

definition say :: "'b world \<Rightarrow> notice \<Rightarrow> 'b world" where
  "say w n = w\<lparr>printed := printed w @ [n]\<rparr>"

definition py_username :: "node \<Rightarrow> json" where
  "py_username st = (case username st of None \<Rightarrow> JNull | Some u \<Rightarrow> JStr u)"

subsection \<open>Persistence\<close>

text \<open>\<^verbatim>\<open>pickle.dump\<close> and \<^verbatim>\<open>pickle.load\<close> are library code: they are parameters
  \<open>pickle_dump\<close> and \<open>pickle_load\<close> (\<open>None\<close>: the file cannot be read or unpickled).\<close>

definition snapshot :: "node \<Rightarrow> pickled" where
  "snapshot st = \<lparr>p_friends = Some (friends st),
                  p_conversations = Some (conversations st),
                  p_friend_requests = Some (friend_requests st)\<rparr>"

definition save_data :: "(pickled \<Rightarrow> 'b) \<Rightarrow> 'b env \<Rightarrow> node \<Rightarrow> 'b world \<Rightarrow> 'b world" where
  "save_data pickle_dump e st w =
     (case file_write e of
        OpenFails \<Rightarrow> w
      | WriteFails b \<Rightarrow> w\<lparr>disk := Some b\<rparr>
      | WriteOk \<Rightarrow> w\<lparr>disk := Some (pickle_dump (snapshot st))\<rparr>)"

definition dict_or_empty :: "('k \<rightharpoonup> 'v) option \<Rightarrow> ('k \<rightharpoonup> 'v)" where
  "dict_or_empty d = (case d of None \<Rightarrow> Map.empty | Some m \<Rightarrow> m)"

definition load_data :: "('b \<Rightarrow> pickled option) \<Rightarrow> node \<Rightarrow> 'b world \<Rightarrow> node \<times> 'b world" where
  "load_data pickle_load st w =
     (case disk w of
        None \<Rightarrow> (st, w)
      | Some b \<Rightarrow>
          (case pickle_load b of
             None \<Rightarrow> (st, say w CouldNotLoad)
           | Some data \<Rightarrow>
               (let st' = st\<lparr>friends := dict_or_empty (p_friends data),
                             conversations := dict_or_empty (p_conversations data),
                             friend_requests := dict_or_empty (p_friend_requests data)\<rparr>
                in (st', say w (Loaded (card (dom (friends st')))
                                       (card (dom (conversations st'))))))))"

subsection \<open>Sending\<close>

text \<open>\<^verbatim>\<open>sock.connect((ip, port))\<close> raises unless the host is a string and the port an
  integer in 0..65535 (a bool is an integer); every exception makes
  \<^verbatim>\<open>send_direct_message\<close> return \<^verbatim>\<open>False\<close>.\<close>

fun endpoint_ok :: "json \<Rightarrow> json \<Rightarrow> bool" where
  "endpoint_ok (JStr h) (JInt p) = (0 \<le> p \<and> p \<le> 65535)"
| "endpoint_ok (JStr h) (JBool b) = True"
| "endpoint_ok _ _ = False"

definition send_direct_message ::
  "'b env \<Rightarrow> json \<Rightarrow> json \<Rightarrow> json \<Rightarrow> 'b world \<Rightarrow> bool \<times> 'b world" where
  "send_direct_message e ip_to port_to message w =
     (let ok = (endpoint_ok ip_to port_to \<and> net_ok e)
      in (ok, w\<lparr>sends := sends w @ [(ip_to, port_to, message, ok)]\<rparr>))"

definition get_local_ip :: "'b env \<Rightarrow> string" where
  "get_local_ip e = (case detected_ip e of None \<Rightarrow> ''127.0.0.1'' | Some a \<Rightarrow> a)"

subsection \<open>\<^verbatim>\<open>process_incoming_message\<close>\<close>

text \<open>The result is the exception that leaves the method, if any, with the node and
  the world as they are at that point: what was done before a \<^verbatim>\<open>raise\<close> stays
  done.\<close>

definition on_friend_request ::
  "(pickled \<Rightarrow> 'b) \<Rightarrow> 'b env \<Rightarrow> (string \<times> json) list \<Rightarrow> node \<Rightarrow> 'b world
     \<Rightarrow> error option \<times> node \<times> 'b world" where
  "on_friend_request pickle_dump e kvs st w =
     (case map_of kvs ''from_user'' of
        None \<Rightarrow> (Some (KeyError ''from_user''), st, w)
      | Some from_user \<Rightarrow>
     (case map_of kvs ''from_ip'' of
        None \<Rightarrow> (Some (KeyError ''from_ip''), st, w)
      | Some from_ip \<Rightarrow>
     (case map_of kvs ''from_port'' of
        None \<Rightarrow> (Some (KeyError ''from_port''), st, w)
      | Some from_port \<Rightarrow>
     (let w1 = say (say w (FriendRequestFrom from_user)) AcceptPrompt in
      case answer e of
        None \<Rightarrow> (Some EOFError, st, w1)
      | Some raw \<Rightarrow>
          (let response = strip (lower raw) in
           if response = ''y'' then
             (case to_key from_user of
                None \<Rightarrow> (Some TypeError, st, w1)
              | Some k \<Rightarrow>
                  (let st1 = st\<lparr>friends := (friends st)(k \<mapsto>
                               \<lparr>ip = from_ip, port = from_port, connected = True\<rparr>)\<rparr>;
                       w2 = save_data pickle_dump e st1 w1;
                       (ok, w3) = send_direct_message e from_ip from_port
                          (JObj [(''type'', JStr ''friend_accept''),
                                 (''from_user'', py_username st1)]) w2
                   in (None, st1, say (say w3 (NowFriend from_user)) Prompt)))
           else
             (let (ok, w2) = send_direct_message e from_ip from_port
                          (JObj [(''type'', JStr ''friend_reject''),
                                 (''from_user'', py_username st)]) w1
              in (None, st, say (say w2 (Rejected from_user)) Prompt)))))))"

definition on_friend_accept ::
  "(string \<times> json) list \<Rightarrow> node \<Rightarrow> 'b world \<Rightarrow> error option \<times> node \<times> 'b world" where
  "on_friend_accept kvs st w =
     (case map_of kvs ''from_user'' of
        None \<Rightarrow> (Some (KeyError ''from_user''), st, w)
      | Some from_user \<Rightarrow> (None, st, say (say w (Accepted from_user)) Prompt))"

definition on_friend_reject ::
  "(string \<times> json) list \<Rightarrow> node \<Rightarrow> 'b world \<Rightarrow> error option \<times> node \<times> 'b world" where
  "on_friend_reject kvs st w =
     (case map_of kvs ''from_user'' of
        None \<Rightarrow> (Some (KeyError ''from_user''), st, w)
      | Some from_user \<Rightarrow> (None, st, say (say w (RejectedBy from_user)) Prompt))"

definition history :: "node \<Rightarrow> pykey \<Rightarrow> chat_entry list" where
  "history st k = (case conversations st k of None \<Rightarrow> [] | Some xs \<Rightarrow> xs)"

definition on_chat_message ::
  "(pickled \<Rightarrow> 'b) \<Rightarrow> 'b env \<Rightarrow> (string \<times> json) list \<Rightarrow> node \<Rightarrow> 'b world
     \<Rightarrow> error option \<times> node \<times> 'b world" where
  "on_chat_message pickle_dump e kvs st w =
     (case map_of kvs ''from_user'' of
        None \<Rightarrow> (Some (KeyError ''from_user''), st, w)
      | Some from_user \<Rightarrow>
     (case map_of kvs ''content'' of
        None \<Rightarrow> (Some (KeyError ''content''), st, w)
      | Some content_in \<Rightarrow>
     (let timestamp = now e in
      case to_key from_user of
        None \<Rightarrow> (Some TypeError, st, w)
      | Some k \<Rightarrow>
          (let st1 = st\<lparr>conversations := (conversations st)(k \<mapsto> history st k @
                         [\<lparr>time = timestamp, msg_from = from_user,
                           content = content_in, direction = ''incoming''\<rparr>])\<rparr>;
               w1 = save_data pickle_dump e st1 w;
               w2 = (if (case current_chat st1 of None \<Rightarrow> JNull | Some c \<Rightarrow> JStr c) \<noteq> from_user
                     then say w1 (IncomingChat timestamp from_user content_in) else w1)
           in (None, st1, say w2 Prompt)))))"

definition process_incoming_message ::
  "(pickled \<Rightarrow> 'b) \<Rightarrow> 'b env \<Rightarrow> json \<Rightarrow> node \<Rightarrow> 'b world
     \<Rightarrow> error option \<times> node \<times> 'b world" where
  "process_incoming_message pickle_dump e message st w =
     (case message of
        JObj kvs \<Rightarrow>
          (let msg_type = (case map_of kvs ''type'' of None \<Rightarrow> JNull | Some v \<Rightarrow> v) in
           if msg_type = JStr ''friend_request'' then on_friend_request pickle_dump e kvs st w
           else if msg_type = JStr ''friend_accept'' then on_friend_accept kvs st w
           else if msg_type = JStr ''friend_reject'' then on_friend_reject kvs st w
           else if msg_type = JStr ''chat_message'' then on_chat_message pickle_dump e kvs st w
           else (None, st, w))
      | _ \<Rightarrow> (Some AttributeError, st, w))"

subsection \<open>\<^verbatim>\<open>handle_connection\<close>\<close>

text \<open>What \<^verbatim>\<open>client_socket.recv(4096).decode()\<close> gives: \<^verbatim>\<open>recv\<close> raises, the
  bytes are not UTF-8, or a text (empty when the peer sent nothing).
  \<^verbatim>\<open>json.loads\<close> is library code: it is the parameter \<open>json_loads\<close>, \<open>None\<close> when
  it raises. Every exception is swallowed, and the socket is closed in all cases.\<close>

datatype inbound = RecvRaises | NotUtf8 | Text string

definition close_socket :: "nat \<Rightarrow> 'b world \<Rightarrow> 'b world" where
  "close_socket client_socket w = w\<lparr>closed := closed w @ [client_socket]\<rparr>"

definition handle_connection ::
  "(string \<Rightarrow> json option) \<Rightarrow> (pickled \<Rightarrow> 'b) \<Rightarrow> 'b env \<Rightarrow> inbound \<Rightarrow> nat
     \<Rightarrow> node \<Rightarrow> 'b world \<Rightarrow> node \<times> 'b world" where
  "handle_connection json_loads pickle_dump e rcv client_socket st w =
     (case rcv of
        RecvRaises \<Rightarrow> (st, close_socket client_socket w)
      | NotUtf8 \<Rightarrow> (st, close_socket client_socket w)
      | Text data \<Rightarrow>
          if data \<noteq> [] then
            (case json_loads data of
               None \<Rightarrow> (st, close_socket client_socket w)
             | Some message \<Rightarrow>
                 (let (err, st', w') = process_incoming_message pickle_dump e message st w
                  in (st', close_socket client_socket w')))
          else (st, close_socket client_socket w))"

subsection \<open>\<^verbatim>\<open>add_friend\<close>\<close>

definition add_friend ::
  "(pickled \<Rightarrow> 'b) \<Rightarrow> 'b env \<Rightarrow> string \<Rightarrow> string \<Rightarrow> int \<Rightarrow> node \<Rightarrow> 'b world
     \<Rightarrow> pyval \<times> node \<times> 'b world" where
  "add_friend pickle_dump e name ip_to port_to st w =
     (let (success, w1) = send_direct_message e (JStr ip_to) (JInt port_to)
            (JObj [(''type'', JStr ''friend_request''),
                   (''from_user'', py_username st),
                   (''from_ip'', JStr (get_local_ip e)),
                   (''from_port'', JInt (self_port st))]) w
      in if success then
           (let w2 = say w1 (RequestSent name);
                st1 = st\<lparr>friend_requests := (friend_requests st)(KStr name \<mapsto> (ip_to, port_to))\<rparr>
            in (PyNone, st1, save_data pickle_dump e st1 w2))
         else (PyNone, st, say w1 (CouldNotConnect name)))"

subsection \<open>\<^verbatim>\<open>show_conversation\<close> and \<^verbatim>\<open>chat_with_friend\<close>\<close>

definition show_conversation :: "node \<Rightarrow> string \<Rightarrow> 'b world \<Rightarrow> 'b world" where
  "show_conversation st name w =
     (let msgs = history st (KStr name);
          w1 = (if msgs \<noteq> [] then
                  foldl (\<lambda>w' msg. say w'
                           (if direction msg = ''outgoing'' then HistoryYou (time msg) (content msg)
                            else HistoryPeer name (time msg) (content msg)))
                        w (drop (length msgs - 20) msgs)
                else say w NoMessagesYet)
      in say w1 Rule)"

text \<open>What \<^verbatim>\<open>input()\<close> does in the chat loop: it returns a line, or Ctrl-C
  interrupts it, or the input is at its end (\<^verbatim>\<open>EOFError\<close>). Each turn of the loop
  takes one event and the environment of that turn. When the events are used up
  the loop waits for input forever: the call does not return, which is \<open>None\<close>.\<close>

datatype chat_event = Line string | Interrupt | EOF

fun chat_loop ::
  "(pickled \<Rightarrow> 'b) \<Rightarrow> string \<Rightarrow> friend_info \<Rightarrow> (chat_event \<times> 'b env) list
     \<Rightarrow> node \<Rightarrow> 'b world \<Rightarrow> (node \<times> 'b world) option" where
  "chat_loop pickle_dump name fi [] st w =
     (if current_chat st = Some name then None else Some (st, w))"
| "chat_loop pickle_dump name fi ((ev, e) # rest) st w =
     (if current_chat st \<noteq> Some name then Some (st, w)
      else case ev of
        Interrupt \<Rightarrow> Some (st\<lparr>current_chat := None\<rparr>, say w LeftChat)
      | EOF \<Rightarrow> chat_loop pickle_dump name fi rest st (say w (ErrorNotice EOFError))
      | Line raw \<Rightarrow>
          (let message = strip raw in
           if lower message = ''exit'' then Some (st\<lparr>current_chat := None\<rparr>, say w LeftChat)
           else if message \<noteq> [] then
             (let (success, w1) = send_direct_message e (ip fi) (port fi)
                    (JObj [(''type'', JStr ''chat_message''),
                           (''from_user'', py_username st),
                           (''content'', JStr message)]) w
              in if success then
                   (let st1 = st\<lparr>conversations := (conversations st)(KStr name \<mapsto>
                                 history st (KStr name) @
                                 [\<lparr>time = now e, msg_from = py_username st,
                                   content = JStr message, direction = ''outgoing''\<rparr>])\<rparr>;
                        w2 = save_data pickle_dump e st1 w1
                    in chat_loop pickle_dump name fi rest st1 (say w2 (You message)))
                 else
                   (let w2 = say w1 MessageFailed in
                    case friends st (KStr name) of
                      None \<Rightarrow> chat_loop pickle_dump name fi rest st
                                 (say w2 (ErrorNotice (KeyError name)))
                    | Some cur \<Rightarrow> chat_loop pickle_dump name fi rest
                                 (st\<lparr>friends := (friends st)(KStr name \<mapsto>
                                         cur\<lparr>connected := False\<rparr>)\<rparr>) w2))
           else chat_loop pickle_dump name fi rest st w))"

definition chat_with_friend ::
  "(pickled \<Rightarrow> 'b) \<Rightarrow> string \<Rightarrow> (chat_event \<times> 'b env) list \<Rightarrow> node \<Rightarrow> 'b world
     \<Rightarrow> (pyval \<times> node \<times> 'b world) option" where
  "chat_with_friend pickle_dump name events st w =
     (case friends st (KStr name) of
        None \<Rightarrow> Some (PyNone, st, say w (NotFriend name))
      | Some friend_info \<Rightarrow>
          (let st1 = st\<lparr>current_chat := Some name\<rparr>;
               w1 = show_conversation st1 name (say (say w (ChatHeader name)) Rule)
           in case chat_loop pickle_dump name friend_info events st1 w1 of
                None \<Rightarrow> None
              | Some (st2, w2) \<Rightarrow> Some (PyNone, st2, w2)))"

subsection \<open>Protocol messages\<close>

text \<open>The messages \<^verbatim>\<open>process_incoming_message\<close> has a branch for, with the fields
  that branch reads: an object whose \<^verbatim>\<open>type\<close> is one of the four strings and
  which has every key the branch indexes.\<close>

definition is_protocol_message :: "json \<Rightarrow> bool" where
  "is_protocol_message m =
     (case m of
        JObj kvs \<Rightarrow>
          (case map_of kvs ''type'' of
             Some (JStr t) \<Rightarrow>
               if t = ''friend_request'' then
                 map_of kvs ''from_user'' \<noteq> None \<and> map_of kvs ''from_ip'' \<noteq> None
                   \<and> map_of kvs ''from_port'' \<noteq> None
               else if t = ''friend_accept'' \<or> t = ''friend_reject'' then
                 map_of kvs ''from_user'' \<noteq> None
               else if t = ''chat_message'' then
                 map_of kvs ''from_user'' \<noteq> None \<and> map_of kvs ''content'' \<noteq> None
               else False
           | _ \<Rightarrow> False)
      | _ \<Rightarrow> False)"

subsection \<open>Concrete nodes, worlds and environments\<close>

text \<open>A node of user alice with nothing stored, the same node with bob as a friend,
  a world where nothing has happened yet, an environment where everything works and
  one where the network is down. The file holds the pickled dict itself
  (\<open>pickle_dump\<close> is the identity, \<open>pickle_load\<close> is \<open>Some\<close>).\<close>

definition alice :: node where
  "alice = \<lparr>username = Some ''alice'', node_id = ''1a2b3c4d'', self_port = 55888,
            friends = Map.empty, friend_requests = Map.empty, conversations = Map.empty,
            running = True, current_chat = None\<rparr>"

definition alice_with_bob :: node where
  "alice_with_bob = alice\<lparr>friends := [KStr ''bob'' \<mapsto>
      \<lparr>ip = JStr ''10.0.0.5'', port = JInt 55888, connected = True\<rparr>]\<rparr>"

definition quiet :: "pickled world" where
  "quiet = \<lparr>disk = None, sends = [], printed = [], closed = []\<rparr>"

definition fair :: "pickled env" where
  "fair = \<lparr>answer = Some ''y'', net_ok = True, now = ''12:00:00'',
           file_write = WriteOk, detected_ip = Some ''10.0.0.2''\<rparr>"


definition accept_from_bob :: json where
  "accept_from_bob = JObj [(''type'', JStr ''friend_accept''), (''from_user'', JStr ''bob'')]"




section \<open>Properties\<close>

subsection \<open>What each step leaves alone\<close>

lemma disk_say [simp]: "disk (say w n) = disk w"
  and sends_say [simp]: "sends (say w n) = sends w"
  and closed_say [simp]: "closed (say w n) = closed w"
  and printed_say [simp]: "printed (say w n) = printed w @ [n]"
  by (simp_all add: say_def)

lemma sends_save_data [simp]: "sends (save_data pickle_dump e st w) = sends w"
  and printed_save_data [simp]: "printed (save_data pickle_dump e st w) = printed w"
  and closed_save_data [simp]: "closed (save_data pickle_dump e st w) = closed w"
  by (simp_all add: save_data_def split: write_result.split)



lemma send_direct_message_world:
  "send_direct_message e a p m w =
     (endpoint_ok a p \<and> net_ok e,
      w\<lparr>sends := sends w @ [(a, p, m, endpoint_ok a p \<and> net_ok e)]\<rparr>)"
  by (simp add: send_direct_message_def Let_def)

lemma foldl_say_frame:
  "disk (foldl (\<lambda>w' m. say w' (f m)) w xs) = disk w
   \<and> sends (foldl (\<lambda>w' m. say w' (f m)) w xs) = sends w
   \<and> closed (foldl (\<lambda>w' m. say w' (f m)) w xs) = closed w"
  by (induction xs arbitrary: w) simp_all

lemma disk_show_conversation [simp]: "disk (show_conversation st name w) = disk w"
  and sends_show_conversation [simp]: "sends (show_conversation st name w) = sends w"
  and closed_show_conversation [simp]: "closed (show_conversation st name w) = closed w"
  by (simp_all add: show_conversation_def Let_def foldl_say_frame)

lemma history_current_chat [simp]: "history (st\<lparr>current_chat := c\<rparr>) k = history st k"
  by (simp add: history_def)

lemma py_username_current_chat [simp]: "py_username (st\<lparr>current_chat := c\<rparr>) = py_username st"
  by (simp add: py_username_def)

lemma snapshot_current_chat [simp]: "snapshot (st\<lparr>current_chat := c\<rparr>) = snapshot st"
  by (simp add: snapshot_def)

subsection \<open>The dispatch on \<^verbatim>\<open>type\<close>\<close>

lemma dispatch_chat_message:
  "map_of kvs ''type'' = Some (JStr ''chat_message'') \<Longrightarrow>
   process_incoming_message pickle_dump e (JObj kvs) st w = on_chat_message pickle_dump e kvs st w"
  by (simp add: process_incoming_message_def)

lemma dispatch_friend_request:
  "map_of kvs ''type'' = Some (JStr ''friend_request'') \<Longrightarrow>
   process_incoming_message pickle_dump e (JObj kvs) st w = on_friend_request pickle_dump e kvs st w"
  by (simp add: process_incoming_message_def)

lemma dispatch_friend_accept:
  "map_of kvs ''type'' = Some (JStr ''friend_accept'') \<Longrightarrow>
   process_incoming_message pickle_dump e (JObj kvs) st w = on_friend_accept kvs st w"
  by (simp add: process_incoming_message_def)

lemma dispatch_friend_reject:
  "map_of kvs ''type'' = Some (JStr ''friend_reject'') \<Longrightarrow>
   process_incoming_message pickle_dump e (JObj kvs) st w = on_friend_reject kvs st w"
  by (simp add: process_incoming_message_def)


lemma not_a_message_no_effect:
  assumes "\<not> is_protocol_message m"
  shows "snd (process_incoming_message pickle_dump e m st w) = (st, w)"
proof (cases m)
  case (JObj kvs)
  show ?thesis
  proof (cases "map_of kvs ''type''")
    case None
    then show ?thesis using JObj by (simp add: process_incoming_message_def)
  next
    case (Some v)
    show ?thesis
    proof (cases "v = JStr ''friend_request''")
      case True
      then show ?thesis using assms JObj Some
        by (auto simp: is_protocol_message_def dispatch_friend_request on_friend_request_def
            split: option.splits)
    next
      case nreq: False
      show ?thesis
      proof (cases "v = JStr ''friend_accept''")
        case True
        then show ?thesis using assms JObj Some
          by (auto simp: is_protocol_message_def dispatch_friend_accept on_friend_accept_def
              split: option.splits)
      next
        case nacc: False
        show ?thesis
        proof (cases "v = JStr ''friend_reject''")
          case True
          then show ?thesis using assms JObj Some
            by (auto simp: is_protocol_message_def dispatch_friend_reject on_friend_reject_def
                split: option.splits)
        next
          case nrej: False
          show ?thesis
          proof (cases "v = JStr ''chat_message''")
            case True
            then show ?thesis using assms JObj Some
              by (auto simp: is_protocol_message_def dispatch_chat_message on_chat_message_def
                  split: option.splits)
          next
            case False
            then show ?thesis using JObj Some nreq nacc nrej
              by (simp add: process_incoming_message_def)
          qed
        qed
      qed
    qed
  qed
qed (simp_all add: process_incoming_message_def)

subsection \<open>One turn of the chat loop\<close>








section \<open>The claims\<close>

text \<open>
  Claim C1. After the node has processed an incoming \<^verbatim>\<open>friend_accept\<close> from a user
  it sent a friend request to, the requester should have a friend record for that
  user. Evaluated on the code: alice sends a request to bob (the send succeeds and
  the request is stored with bob's address), bob's \<^verbatim>\<open>friend_accept\<close> arrives and is
  processed without an exception, and afterwards alice has no friend record for bob,
  the stored request is still there, and \<^verbatim>\<open>chat_with_friend\<close> answers that bob is not
  a friend.
\<close>

theorem friend_accept_creates_no_friend_record:
  "(case add_friend (\<lambda>d. d) fair ''bob'' ''10.0.0.5'' 55888 alice quiet of
      (ret, st1, w1) \<Rightarrow>
        (case process_incoming_message (\<lambda>d. d) fair accept_from_bob st1 w1 of
           (err, st2, w2) \<Rightarrow>
               friend_requests st1 (KStr ''bob'') = Some (''10.0.0.5'', 55888)
             \<and> err = None
             \<and> friends st2 (KStr ''bob'') = None
             \<and> friend_requests st2 (KStr ''bob'') = Some (''10.0.0.5'', 55888)
             \<and> printed w2 = [RequestSent ''bob'', Accepted (JStr ''bob''), Prompt]
             \<and> map_option fst (chat_with_friend (\<lambda>d. d) ''bob'' [(Line ''hello'', fair)] st2 w2)
                 = Some PyNone
             \<and> map_option (\<lambda>r. last (printed (snd (snd r))))
                   (chat_with_friend (\<lambda>d. d) ''bob'' [(Line ''hello'', fair)] st2 w2)
                 = Some (NotFriend ''bob'')))"
  by (simp add: add_friend_def Let_def send_direct_message_world fair_def alice_def quiet_def
      accept_from_bob_def process_incoming_message_def on_friend_accept_def
      chat_with_friend_def save_data_def say_def)








text \<open>
  Claim C5. For a username with no friend record, \<^verbatim>\<open>chat_with_friend\<close> returns at
  once, whatever the user would type: it prints that the user is not a friend, sends
  nothing, and leaves the node (every conversation and every other field) and the
  file unchanged.
\<close>

theorem chat_with_non_friend:
  assumes "friends st (KStr name) = None"
  shows "chat_with_friend pickle_dump name events st w
           = Some (PyNone, st, w\<lparr>printed := printed w @ [NotFriend name]\<rparr>)"
  using assms by (simp add: chat_with_friend_def say_def)

theorem chat_with_non_friend_witness:
  "friends alice (KStr ''bob'') = None
   \<and> chat_with_friend (\<lambda>d. d) ''bob'' [(Line ''hello'', fair)] alice quiet
       = Some (PyNone, alice, quiet\<lparr>printed := [NotFriend ''bob'']\<rparr>)"
  using chat_with_non_friend [where st = alice and name = "''bob''" and pickle_dump = "\<lambda>d. d"
      and events = "[(Line ''hello'', fair)]" and w = quiet]
  by (simp add: alice_def quiet_def)




text \<open>
  Claim C7. When the read on an accepted connection fails, gives bytes that are not
  text, gives nothing, or gives a text that \<^verbatim>\<open>json.loads\<close> rejects or that is JSON but
  not a protocol message (not an object, no known \<^verbatim>\<open>type\<close>, or a field of its type
  missing), \<^verbatim>\<open>handle_connection\<close> closes the socket and does nothing else: the node,
  the file, the sends and the printed lines are as before.
\<close>

theorem silent_drop:
  assumes "rcv = RecvRaises \<or> rcv = NotUtf8 \<or> rcv = Text []
         \<or> (\<exists>data. rcv = Text data \<and> (json_loads data = None
               \<or> (\<exists>m. json_loads data = Some m \<and> \<not> is_protocol_message m)))"
  shows "handle_connection json_loads pickle_dump e rcv client_socket st w
           = (st, w\<lparr>closed := closed w @ [client_socket]\<rparr>)"
proof -
  have drop: "handle_connection json_loads pickle_dump e (Text data) client_socket st w
                = (st, w\<lparr>closed := closed w @ [client_socket]\<rparr>)"
    if "json_loads data = None \<or> (\<exists>m. json_loads data = Some m \<and> \<not> is_protocol_message m)"
    for data
  proof (cases "json_loads data")
    case None
    then show ?thesis by (simp add: handle_connection_def close_socket_def)
  next
    case (Some m)
    with that have "snd (process_incoming_message pickle_dump e m st w) = (st, w)"
      by (simp add: not_a_message_no_effect)
    then obtain err where "process_incoming_message pickle_dump e m st w = (err, st, w)"
      by (cases "process_incoming_message pickle_dump e m st w") simp
    with Some show ?thesis by (simp add: handle_connection_def close_socket_def)
  qed
  from assms show ?thesis
    using drop by (auto simp: handle_connection_def close_socket_def)
qed

theorem silent_drop_witness:
  "handle_connection (\<lambda>s. None) (\<lambda>d. d) fair (Text ''{type:'') 7 alice_with_bob quiet
       = (alice_with_bob, quiet\<lparr>closed := [7]\<rparr>)
   \<and> \<not> is_protocol_message (JObj [(''type'', JStr ''chat_message''), (''from_user'', JStr ''bob'')])
   \<and> handle_connection
        (\<lambda>s. Some (JObj [(''type'', JStr ''chat_message''), (''from_user'', JStr ''bob'')]))
        (\<lambda>d. d) fair (Text ''{}'') 7 alice_with_bob quiet
       = (alice_with_bob, quiet\<lparr>closed := [7]\<rparr>)
   \<and> handle_connection (\<lambda>s. None) (\<lambda>d. d) fair (Text []) 7 alice_with_bob quiet
       = (alice_with_bob, quiet\<lparr>closed := [7]\<rparr>)"
  using
    silent_drop [where rcv = "Text ''{type:''" and json_loads = "\<lambda>s. None"
      and pickle_dump = "\<lambda>d. d" and e = fair and client_socket = 7 and st = alice_with_bob
      and w = quiet]
    silent_drop [where rcv = "Text ''{}''"
      and json_loads = "\<lambda>s. Some (JObj [(''type'', JStr ''chat_message''),
                                          (''from_user'', JStr ''bob'')])"
      and pickle_dump = "\<lambda>d. d" and e = fair and client_socket = 7 and st = alice_with_bob
      and w = quiet]
    silent_drop [where rcv = "Text []" and json_loads = "\<lambda>s. None"
      and pickle_dump = "\<lambda>d. d" and e = fair and client_socket = 7 and st = alice_with_bob
      and w = quiet]
  by (simp add: is_protocol_message_def quiet_def)

text \<open>
  Claim C8. Provided \<^verbatim>\<open>pickle.load\<close> gives back what \<^verbatim>\<open>pickle.dump\<close> wrote for the
  snapshot of the node, a \<^verbatim>\<open>load_data\<close> (into any node) after a \<^verbatim>\<open>save_data\<close> whose
  write succeeded sets the three maps \<^verbatim>\<open>friends\<close>, \<^verbatim>\<open>conversations\<close> and
  \<^verbatim>\<open>friend_requests\<close> to those of the saved node.
\<close>

theorem save_load_roundtrip:
  assumes "pickle_load (pickle_dump (snapshot st)) = Some (snapshot st)"
    and "file_write e = WriteOk"
  shows "case load_data pickle_load st0 (save_data pickle_dump e st w) of (st', w') \<Rightarrow>
     friends st' = friends st \<and> conversations st' = conversations st
     \<and> friend_requests st' = friend_requests st"
  using assms
  by (simp add: load_data_def save_data_def Let_def snapshot_def dict_or_empty_def)

theorem save_load_roundtrip_witness:
  "Some (snapshot alice_with_bob) = Some (snapshot alice_with_bob)
   \<and> file_write fair = WriteOk
   \<and> friends (fst (load_data Some alice (save_data (\<lambda>d. d) fair alice_with_bob quiet)))
       = friends alice_with_bob
   \<and> conversations (fst (load_data Some alice (save_data (\<lambda>d. d) fair alice_with_bob quiet)))
       = conversations alice_with_bob
   \<and> friend_requests (fst (load_data Some alice (save_data (\<lambda>d. d) fair alice_with_bob quiet)))
       = friend_requests alice_with_bob
   \<and> friends (fst (load_data Some alice (save_data (\<lambda>d. d) fair alice_with_bob quiet)))
        (KStr ''bob'') = Some \<lparr>ip = JStr ''10.0.0.5'', port = JInt 55888, connected = True\<rparr>"
  using save_load_roundtrip [where pickle_load = Some and pickle_dump = "\<lambda>d. d"
      and st = alice_with_bob and e = fair and st0 = alice and w = quiet]
  by (simp add: split_beta fair_def alice_with_bob_def)

text \<open>
  Claim C9. Processing an incoming \<^verbatim>\<open>friend_accept\<close> or \<^verbatim>\<open>friend_reject\<close>, with or
  without a \<^verbatim>\<open>from_user\<close>, leaves the node as it was, the pending requests in
  particular, and leaves the file, the sends and the closed sockets as they were:
  the only effect is on the printed lines.
\<close>

theorem accept_reject_frame:
  assumes "map_of kvs ''type'' = Some (JStr ''friend_accept'')
         \<or> map_of kvs ''type'' = Some (JStr ''friend_reject'')"
  shows "case process_incoming_message pickle_dump e (JObj kvs) st w of (err, st', w') \<Rightarrow>
     st' = st \<and> friend_requests st' = friend_requests st
     \<and> disk w' = disk w \<and> sends w' = sends w \<and> closed w' = closed w"
proof -
  have a: "case on_friend_accept kvs st w of (err, st', w') \<Rightarrow>
     st' = st \<and> friend_requests st' = friend_requests st
     \<and> disk w' = disk w \<and> sends w' = sends w \<and> closed w' = closed w"
    by (cases "map_of kvs ''from_user''") (simp_all add: on_friend_accept_def)
  have r: "case on_friend_reject kvs st w of (err, st', w') \<Rightarrow>
     st' = st \<and> friend_requests st' = friend_requests st
     \<and> disk w' = disk w \<and> sends w' = sends w \<and> closed w' = closed w"
    by (cases "map_of kvs ''from_user''") (simp_all add: on_friend_reject_def)
  from assms show ?thesis
  proof
    assume "map_of kvs ''type'' = Some (JStr ''friend_accept'')"
    then show ?thesis using a by (simp add: dispatch_friend_accept)
  next
    assume "map_of kvs ''type'' = Some (JStr ''friend_reject'')"
    then show ?thesis using r by (simp add: dispatch_friend_reject)
  qed
qed

theorem accept_reject_frame_witness:
  "map_of [(''type'', JStr ''friend_reject''), (''from_user'', JStr ''bob'')] ''type''
       = Some (JStr ''friend_reject'')
   \<and> fst (snd (process_incoming_message (\<lambda>d. d) fair
        (JObj [(''type'', JStr ''friend_reject''), (''from_user'', JStr ''bob'')])
        (alice\<lparr>friend_requests := [KStr ''bob'' \<mapsto> (''10.0.0.5'', 55888)]\<rparr>) quiet))
       = alice\<lparr>friend_requests := [KStr ''bob'' \<mapsto> (''10.0.0.5'', 55888)]\<rparr>
   \<and> disk (snd (snd (process_incoming_message (\<lambda>d. d) fair
        (JObj [(''type'', JStr ''friend_reject''), (''from_user'', JStr ''bob'')])
        (alice\<lparr>friend_requests := [KStr ''bob'' \<mapsto> (''10.0.0.5'', 55888)]\<rparr>) quiet)))
       = None"
  using accept_reject_frame [where kvs = "[(''type'', JStr ''friend_reject''),
        (''from_user'', JStr ''bob'')]" and pickle_dump = "\<lambda>d. d" and e = fair
      and st = "alice\<lparr>friend_requests := [KStr ''bob'' \<mapsto> (''10.0.0.5'', 55888)]\<rparr>"
      and w = quiet]
  by (simp add: split_beta quiet_def)



end
